theory Spec2Isabelle
  imports Complex_Main
begin

section \<open>Gesture classification (\<open>src/components/SignDetection.tsx\<close>, \<open>classifyGesture\<close>)\<close>

text \<open>
  The classifier takes \<open>landmarks: number[][]\<close>. A landmark is modelled as the list of its
  coordinates; a coordinate is a real number (the rounding of doubles is idealised away:
  the function only compares coordinates and tests one distance against a threshold).

  Reading a JavaScript array outside its bounds does not raise: it yields \<open>undefined\<close>.
  Reading a property of \<open>undefined\<close> raises a \<open>TypeError\<close>. Both are written out:
  \<open>js_get\<close> is the array read, \<open>None\<close> standing for \<open>undefined\<close>, and an indexed read of
  a landmark that is \<open>undefined\<close> is the error value \<open>TypeError\<close>.
\<close>

type_synonym landmark = "real list"

datatype js_error = TypeError

record classification =
  gesture :: string
  confidence :: real

definition js_get :: "'a list \<Rightarrow> nat \<Rightarrow> 'a option" where
  "js_get xs i = (if i < length xs then Some (xs ! i) else None)"

text \<open>
  \<open>a < b\<close> on values that may be \<open>undefined\<close>: \<open>undefined\<close> converts to \<open>NaN\<close>, and
  every comparison with \<open>NaN\<close> is false.
\<close>

definition js_less :: "real option \<Rightarrow> real option \<Rightarrow> bool" where
  "js_less a b = (case (a, b) of (Some x, Some y) \<Rightarrow> x < y | _ \<Rightarrow> False)"

text \<open>\<open>p[i] < q[j]\<close> for two landmarks read from the list: a \<open>TypeError\<close> when either
  landmark is \<open>undefined\<close>.\<close>

definition coord_less ::
  "landmark option \<Rightarrow> nat \<Rightarrow> landmark option \<Rightarrow> nat \<Rightarrow> js_error + bool" where
  "coord_less p i q j =
     (case (p, q) of
        (Some a, Some b) \<Rightarrow> Inr (js_less (js_get a i) (js_get b j))
      | _ \<Rightarrow> Inl TypeError)"

text \<open>\<open>[indexExtended, middleExtended, ringExtended, pinkyExtended].filter(Boolean).length\<close>\<close>

definition extendedCount :: "bool \<Rightarrow> bool \<Rightarrow> bool \<Rightarrow> bool \<Rightarrow> nat" where
  "extendedCount indexExtended middleExtended ringExtended pinkyExtended =
     length (filter (\<lambda>b. b) [indexExtended, middleExtended, ringExtended, pinkyExtended])"

text \<open>
  \<open>Math.sqrt(Math.pow(thumbTip[0] - indexTip[0], 2) + Math.pow(thumbTip[1] - indexTip[1], 2))\<close>,
  evaluated on two landmarks that are already known to be defined. A missing coordinate
  makes the whole expression \<open>NaN\<close> (\<open>None\<close>).

  The source computes the distance in double precision, where every operation rounds; the
  model computes it exactly. For landmarks whose distance lies within rounding error of
  the threshold 0.1 the last rule can therefore come out differently in the model and in
  the code. The results below on labels and confidences are derived from
  \<open>gestureRules_cases\<close>, which holds for every value of the distance, so they do not
  depend on the rounding; the one evaluation of the last rule, \<open>classifyGesture_okHand\<close>,
  is at distance 0.05.
\<close>

definition thumbIndexDist :: "landmark \<Rightarrow> landmark \<Rightarrow> real option" where
  "thumbIndexDist thumbTip indexTip =
     (case (js_get thumbTip 0, js_get indexTip 0, js_get thumbTip 1, js_get indexTip 1) of
        (Some tx, Some ix, Some ty, Some iy) \<Rightarrow> Some (sqrt ((tx - ix)\<^sup>2 + (ty - iy)\<^sup>2))
      | _ \<Rightarrow> None)"

text \<open>The chain of threshold rules, in the order of the source.\<close>

definition gestureRules ::
  "bool \<Rightarrow> bool \<Rightarrow> bool \<Rightarrow> bool \<Rightarrow> bool \<Rightarrow> real option \<Rightarrow> classification option" where
  "gestureRules thumbExtended indexExtended middleExtended ringExtended pinkyExtended distance =
     (if thumbExtended \<and>
         extendedCount indexExtended middleExtended ringExtended pinkyExtended = 0
      then Some \<lparr>gesture = ''Yes'', confidence = 0.85\<rparr>
      else if indexExtended \<and> middleExtended \<and> \<not> ringExtended \<and> \<not> pinkyExtended
      then Some \<lparr>gesture = ''2'', confidence = 0.82\<rparr>
      else if indexExtended \<and> \<not> middleExtended \<and> \<not> ringExtended \<and> \<not> pinkyExtended
      then Some \<lparr>gesture = ''1'', confidence = 0.85\<rparr>
      else if indexExtended \<and> middleExtended \<and> ringExtended \<and> \<not> pinkyExtended
      then Some \<lparr>gesture = ''3'', confidence = 0.80\<rparr>
      else if indexExtended \<and> middleExtended \<and> ringExtended \<and> pinkyExtended \<and> \<not> thumbExtended
      then Some \<lparr>gesture = ''4'', confidence = 0.80\<rparr>
      else if thumbExtended \<and> indexExtended \<and> middleExtended \<and> ringExtended \<and> pinkyExtended
      then Some \<lparr>gesture = ''Hello'', confidence = 0.88\<rparr>
      else if thumbExtended \<and> indexExtended \<and> \<not> middleExtended \<and> \<not> ringExtended \<and> pinkyExtended
      then Some \<lparr>gesture = ''I Love You'', confidence = 0.85\<rparr>
      else if \<not> thumbExtended \<and>
         extendedCount indexExtended middleExtended ringExtended pinkyExtended = 0
      then Some \<lparr>gesture = ''No'', confidence = 0.80\<rparr>
      else if js_less distance (Some 0.1) \<and> middleExtended \<and> ringExtended \<and> pinkyExtended
      then Some \<lparr>gesture = ''Thank You'', confidence = 0.82\<rparr>
      else None)"

text \<open>
  The statements of \<open>classifyGesture\<close> after its guard: the reads of the landmark list,
  the five comparisons (evaluated in the order of the source; the first read of a coordinate
  of an \<open>undefined\<close> landmark raises) and the rule chain. The source also reads
  \<open>landmarks[0]\<close> into \<open>wrist\<close>, which it never uses.
\<close>

definition classifyUnguarded :: "landmark list \<Rightarrow> js_error + classification option" where
  "classifyUnguarded landmarks =
     (let thumbTip = js_get landmarks 4;
          indexTip = js_get landmarks 8;
          middleTip = js_get landmarks 12;
          ringTip = js_get landmarks 16;
          pinkyTip = js_get landmarks 20;
          indexMcp = js_get landmarks 5;
          middleMcp = js_get landmarks 9;
          ringMcp = js_get landmarks 13;
          pinkyMcp = js_get landmarks 17
      in
        (case coord_less thumbTip 0 (js_get landmarks 3) 0 of Inl e \<Rightarrow> Inl e
         | Inr thumbExtended \<Rightarrow>
        (case coord_less indexTip 1 indexMcp 1 of Inl e \<Rightarrow> Inl e
         | Inr indexExtended \<Rightarrow>
        (case coord_less middleTip 1 middleMcp 1 of Inl e \<Rightarrow> Inl e
         | Inr middleExtended \<Rightarrow>
        (case coord_less ringTip 1 ringMcp 1 of Inl e \<Rightarrow> Inl e
         | Inr ringExtended \<Rightarrow>
        (case coord_less pinkyTip 1 pinkyMcp 1 of Inl e \<Rightarrow> Inl e
         | Inr pinkyExtended \<Rightarrow>
        (case (thumbTip, indexTip) of
           (Some t, Some i) \<Rightarrow>
             Inr (gestureRules thumbExtended indexExtended middleExtended ringExtended
                    pinkyExtended (thumbIndexDist t i))
         | _ \<Rightarrow> Inl TypeError)))))))"

text \<open>
  \<open>classifyGesture\<close>: \<open>Inr None\<close> is the result \<open>null\<close>, \<open>Inl TypeError\<close> an exception
  raised by reading a coordinate of a landmark that is not in the list. An array is truthy
  even when empty, so \<open>!landmarks\<close> is false for every list and the guard is the length
  test.
\<close>

definition classifyGesture :: "landmark list \<Rightarrow> js_error + classification option" where
  "classifyGesture landmarks =
     (if length landmarks \<noteq> 21 then Inr None else classifyUnguarded landmarks)"

text \<open>The labels that appear in the \<open>return\<close> statements of \<open>classifyGesture\<close>.\<close>

definition gestureLabels :: "string list" where
  "gestureLabels =
     [''Yes'', ''No'', ''Hello'', ''1'', ''2'', ''3'', ''4'', ''I Love You'', ''Thank You'']"

text \<open>A hand with every finger extended, and one with three fingers up and the thumb
  tip on the index tip: 21 landmarks of three coordinates each.\<close>

definition openHand :: "landmark list" where
  "openHand =
     [[0.5, 0.9, 0], [0.45, 0.8, 0], [0.4, 0.7, 0], [0.35, 0.6, 0], [0.3, 0.5, 0],
      [0.45, 0.5, 0], [0.45, 0.4, 0], [0.45, 0.3, 0], [0.45, 0.2, 0],
      [0.5, 0.5, 0], [0.5, 0.4, 0], [0.5, 0.3, 0], [0.5, 0.2, 0],
      [0.55, 0.5, 0], [0.55, 0.4, 0], [0.55, 0.3, 0], [0.55, 0.2, 0],
      [0.6, 0.5, 0], [0.6, 0.4, 0], [0.6, 0.3, 0], [0.6, 0.2, 0]]"

definition okHand :: "landmark list" where
  "okHand =
     [[0.5, 0.9, 0], [0.45, 0.8, 0], [0.4, 0.7, 0], [0.35, 0.6, 0], [0.45, 0.55, 0],
      [0.45, 0.5, 0], [0.45, 0.4, 0], [0.45, 0.5, 0], [0.45, 0.6, 0],
      [0.5, 0.5, 0], [0.5, 0.4, 0], [0.5, 0.3, 0], [0.5, 0.2, 0],
      [0.55, 0.5, 0], [0.55, 0.4, 0], [0.55, 0.3, 0], [0.55, 0.2, 0],
      [0.6, 0.5, 0], [0.6, 0.4, 0], [0.6, 0.3, 0], [0.6, 0.2, 0]]"

section \<open>The detection component (\<open>SignDetection\<close>)\<close>

text \<open>
  The source file holds two listings of the component. The first (lines 1 to 448) sends
  the landmarks to a remote \<open>detect-sign\<close> function (\<open>processLandmarks\<close>); the second
  (lines 449 to 1011) classifies locally with \<open>classifyGesture\<close> and publishes through
  \<open>processGesture\<close>. Functions that exist in both with different bodies carry the suffix
  \<open>_v1\<close> or \<open>_v2\<close>; \<open>clearText\<close> is the same in both.

  The React state and the refs of the component are one record, passed explicitly. Three
  fields are logs of effects: \<open>onDetectionCalls\<close> lists the arguments the \<open>onDetection\<close>
  callback was called with, \<open>translateCalls\<close> lists the invocations of the remote
  \<open>translate-text\<close> function (text and target language), and \<open>unhandledRejections\<close>
  lists what rejected a promise that no code awaits or handles.

  What a \<open>throw\<close> or a rejected promise carries is an instance of \<open>Error\<close> with its
  \<open>name\<close> and \<open>message\<close>, or some other value.
\<close>

datatype thrown = ErrorObject string string | NonError

record component_state =
  isActive :: bool
  isLoading :: bool
  error :: "string option"
  detectedText :: string
  currentGesture :: string
  confidence_state :: real
  isDetecting :: bool
  handDetected :: bool
  lastGestureRef :: string
  gestureCountRef :: nat
  handsRef :: bool
  streamRef :: bool
  onDetectionCalls :: "string list"
  translateCalls :: "(string \<times> string) list"
  unhandledRejections :: "thrown list"

text \<open>
  The props: \<open>onDetection\<close> is optional, the field says whether it was supplied.

  A callback reads the props of the render that created it, not those of the latest
  render. The handler registered with the tracker keeps calling the \<open>processGesture\<close> of
  the render in which \<open>startDetection\<close> was created (second listing, lines 714 to 751),
  and \<open>initializeMediaPipe\<close>, which has no dependencies, the \<open>processLandmarks\<close> of the
  first render (first listing, lines 87 to 144). The props \<open>p\<close> that the functions below
  take are therefore the props their closure captured; they are the props selected by the
  parent only until the parent renders the component with other props.
\<close>

record props =
  language :: string
  onDetection :: bool

definition initialState :: component_state where
  "initialState =
     \<lparr>isActive = False, isLoading = False, error = None, detectedText = [],
      currentGesture = [], confidence_state = 0, isDetecting = False, handDetected = False,
      lastGestureRef = [], gestureCountRef = 0, handsRef = False, streamRef = False,
      onDetectionCalls = [], translateCalls = [], unhandledRejections = []\<rparr>"

subsection \<open>The accumulated text\<close>

text \<open>\<open>prev.split(' ')\<close>: the pieces between the separators, empty pieces included.\<close>

fun split_on :: "char \<Rightarrow> string \<Rightarrow> string list" where
  "split_on c [] = [[]]"
| "split_on c (x # xs) =
     (if x = c then [] # split_on c xs
      else (case split_on c xs of
              [] \<Rightarrow> [[x]]
            | w # ws \<Rightarrow> (x # w) # ws))"

text \<open>\<open>prev.split(' ').filter(Boolean)\<close>: the empty string is the only falsy string.\<close>

definition wordsOf :: "string \<Rightarrow> string list" where
  "wordsOf prev = filter (\<lambda>w. w \<noteq> []) (split_on CHR '' '' prev)"

text \<open>\<open>words[words.length - 1]\<close>, \<open>undefined\<close> (\<open>None\<close>) when there is no word.\<close>

definition lastWord :: "string \<Rightarrow> string option" where
  "lastWord prev = (let ws = wordsOf prev in if ws = [] then None else Some (last ws))"

text \<open>\<open>prev ? `${prev} ${displayText}` : displayText\<close>\<close>

definition joinText :: "string \<Rightarrow> string \<Rightarrow> string" where
  "joinText prev displayText = (if prev \<noteq> [] then prev @ '' '' @ displayText else displayText)"

text \<open>\<open>onDetection?.(text)\<close>\<close>

definition notify :: "props \<Rightarrow> string \<Rightarrow> component_state \<Rightarrow> component_state" where
  "notify p text s =
     (if onDetection p then s\<lparr>onDetectionCalls := onDetectionCalls s @ [text]\<rparr> else s)"

text \<open>The updater passed to \<open>setDetectedText\<close> in \<open>processLandmarks\<close> (lines 190 to 194).\<close>

definition appendDetectedText :: "props \<Rightarrow> string \<Rightarrow> component_state \<Rightarrow> component_state" where
  "appendDetectedText p displayText s =
     (let newText = joinText (detectedText s) displayText
      in notify p newText (s\<lparr>detectedText := newText\<rparr>))"

text \<open>The updater passed to \<open>setDetectedText\<close> in \<open>processGesture\<close> (lines 626 to 635).\<close>

definition appendDistinctText :: "props \<Rightarrow> string \<Rightarrow> component_state \<Rightarrow> component_state" where
  "appendDistinctText p displayText s =
     (let prev = detectedText s
      in if lastWord prev \<noteq> Some displayText
         then (let newText = joinText prev displayText
               in notify p newText (s\<lparr>detectedText := newText\<rparr>))
         else s)"

definition clearText :: "props \<Rightarrow> component_state \<Rightarrow> component_state" where
  "clearText p s = notify p [] (s\<lparr>detectedText := []\<rparr>)"

subsection \<open>Remote calls\<close>

text \<open>
  An awaited \<open>supabase.functions.invoke\<close> either throws or returns an object. What it does
  is decided outside the component, so the outcome is a parameter of the model. For
  \<open>translate-text\<close> the returned value is reduced to \<open>translationData?.translatedText\<close>:
  \<open>None\<close> when the data is missing or has no such field.
\<close>

datatype 'a invoked = Threw | Returned 'a

text \<open>\<open>if (translationData?.translatedText) displayText = translationData.translatedText\<close>:
  an empty string is falsy.\<close>

definition translateDisplay :: "string \<Rightarrow> string option \<Rightarrow> string" where
  "translateDisplay g translatedText =
     (case translatedText of
        Some t \<Rightarrow> if t \<noteq> [] then t else g
      | None \<Rightarrow> g)"

subsection \<open>\<open>processGesture\<close> (second listing)\<close>

text \<open>
  The first statements of \<open>processGesture\<close>: the update of the two refs.
\<close>

definition countGesture :: "string \<Rightarrow> component_state \<Rightarrow> component_state" where
  "countGesture g s =
     (if g = lastGestureRef s then s\<lparr>gestureCountRef := gestureCountRef s + 1\<rparr>
      else s\<lparr>lastGestureRef := g, gestureCountRef := 1\<rparr>)"

text \<open>
  The value of \<open>displayText\<close> in \<open>processGesture\<close> (lines 606 to 623): the label
  itself, replaced by the translation when the language is not English and the call
  returned a non-empty \<open>translatedText\<close>. The inner \<open>catch\<close> keeps the label when the call
  throws.
\<close>

definition displayLabel :: "props \<Rightarrow> string option invoked \<Rightarrow> string \<Rightarrow> string" where
  "displayLabel p translation g =
     (if language p \<noteq> ''en''
      then (case translation of
              Returned translatedText \<Rightarrow> translateDisplay g translatedText
            | Threw \<Rightarrow> g)
      else g)"

text \<open>
  \<open>processGesture\<close> is an \<open>async\<close> function. It runs without interruption up to
  \<open>await supabase.functions.invoke\<close>, which it reaches only when the language is not
  English; other callbacks of the component, further calls of \<open>processGesture\<close> among
  them, may run before it resumes. \<open>processGesture_begin\<close> is the part before the
  \<open>await\<close>: it returns whether the call got past the early \<open>return\<close>, and records the
  invocation of the translation. \<open>processGesture_finish\<close> is the part after it, with the
  outcome of the translation call as a parameter (read only when the call was made). The
  parameter \<open>gesture\<close> of the source is written \<open>g\<close>.
\<close>

definition processGesture_begin ::
  "props \<Rightarrow> string \<Rightarrow> real \<Rightarrow> component_state \<Rightarrow> bool \<times> component_state" where
  "processGesture_begin p g conf s =
     (let s1 = countGesture g s
      in if gestureCountRef s1 < 3 then (False, s1)
         else
           let s2 = s1\<lparr>currentGesture := g, confidence_state := conf\<rparr>;
               s3 = (if language p \<noteq> ''en''
                     then s2\<lparr>translateCalls := translateCalls s2 @ [(g, language p)]\<rparr>
                     else s2)
           in (True, s3))"

definition processGesture_finish ::
  "props \<Rightarrow> string option invoked \<Rightarrow> string \<Rightarrow> component_state \<Rightarrow> component_state" where
  "processGesture_finish p translation g s =
     (let displayText = displayLabel p translation g;
          s4 = appendDistinctText p displayText s
      in s4\<lparr>gestureCountRef := 0\<rparr>)"

text \<open>A call of \<open>processGesture\<close> that nothing interrupts.\<close>

definition processGesture ::
  "props \<Rightarrow> string option invoked \<Rightarrow> string \<Rightarrow> real \<Rightarrow> component_state \<Rightarrow> component_state" where
  "processGesture p translation g conf s =
     (case processGesture_begin p g conf s of
        (False, s1) \<Rightarrow> s1
      | (True, s3) \<Rightarrow> processGesture_finish p translation g s3)"

subsection \<open>\<open>processLandmarks\<close> (first listing)\<close>

text \<open>The object returned by \<open>detect-sign\<close>: \<open>{ data, error: funcError }\<close>.\<close>

record detect_data =
  detected :: bool
  detectedGesture :: string
  detectedConfidence :: real

record detect_response =
  funcError :: bool
  detectData :: "detect_data option"

text \<open>
  The body of the \<open>try\<close> block. An exception thrown by either remote call leaves the block
  (the handler only logs it); the \<open>finally\<close> clause is applied by \<open>processLandmarks\<close>.
\<close>

definition processLandmarksTry ::
  "props \<Rightarrow> detect_response invoked \<Rightarrow> string option invoked \<Rightarrow> component_state
     \<Rightarrow> component_state" where
  "processLandmarksTry p detection translation s =
     (case detection of
        Threw \<Rightarrow> s
      | Returned r \<Rightarrow>
          if funcError r then s
          else (case detectData r of
                  None \<Rightarrow> s
                | Some d \<Rightarrow>
                    if detected d \<and> detectedGesture d \<noteq> [] then
                      let s1 = s\<lparr>currentGesture := detectedGesture d,
                                 confidence_state := detectedConfidence d\<rparr>
                      in if language p \<noteq> ''en'' then
                           let s2 = s1\<lparr>translateCalls :=
                                        translateCalls s1 @ [(detectedGesture d, language p)]\<rparr>
                           in (case translation of
                                 Threw \<Rightarrow> s2
                               | Returned translatedText \<Rightarrow>
                                   appendDetectedText p
                                     (translateDisplay (detectedGesture d) translatedText) s2)
                         else appendDetectedText p (detectedGesture d) s1
                    else s))"

definition processLandmarks ::
  "props \<Rightarrow> detect_response invoked \<Rightarrow> string option invoked \<Rightarrow> 'a list \<Rightarrow> component_state
     \<Rightarrow> component_state" where
  "processLandmarks p detection translation landmarks s =
     (if landmarks = [] then s
      else (processLandmarksTry p detection translation (s\<lparr>isDetecting := True\<rparr>))
             \<lparr>isDetecting := False\<rparr>)"

subsection \<open>\<open>startDetection\<close>\<close>

text \<open>
  An awaited promise resolves, is rejected, or never settles. A block of an \<open>async\<close>
  function accordingly ends normally, ends by an exception, or does not end (it waits on
  a promise that never settles); each outcome carries the state reached.
\<close>

datatype awaited = Resolved | Rejected thrown | Never

datatype 's outcome = Done 's | Raised thrown 's | Stuck 's

fun final :: "'s outcome \<Rightarrow> 's" where
  "final (Done s) = s"
| "final (Raised err s) = s"
| "final (Stuck s) = s"


fun stuck :: "'s outcome \<Rightarrow> bool" where
  "stuck (Done s) = False"
| "stuck (Raised err s) = False"
| "stuck (Stuck s) = True"

text \<open>\<open>await promise; rest\<close>\<close>

definition awaiting :: "awaited \<Rightarrow> 's \<Rightarrow> ('s \<Rightarrow> 's outcome) \<Rightarrow> 's outcome" where
  "awaiting promise s rest =
     (case promise of
        Resolved \<Rightarrow> rest s
      | Rejected err \<Rightarrow> Raised err s
      | Never \<Rightarrow> Stuck s)"

text \<open>\<open>first; rest\<close>\<close>

definition and_then :: "'s outcome \<Rightarrow> ('s \<Rightarrow> 's outcome) \<Rightarrow> 's outcome" where
  "and_then first rest =
     (case first of
        Done s \<Rightarrow> rest s
      | Raised err s \<Rightarrow> Raised err s
      | Stuck s \<Rightarrow> Stuck s)"

text \<open>\<open>try { body } catch (err) { handler }\<close>\<close>

definition try_catch :: "'s outcome \<Rightarrow> (thrown \<Rightarrow> 's \<Rightarrow> 's outcome) \<Rightarrow> 's outcome" where
  "try_catch body handler =
     (case body of
        Done s \<Rightarrow> Done s
      | Raised err s \<Rightarrow> handler err s
      | Stuck s \<Rightarrow> Stuck s)"

text \<open>\<open>try { body } finally { cleanup }\<close>: the cleanup does not run while the body waits.\<close>

definition try_finally :: "'s outcome \<Rightarrow> ('s \<Rightarrow> 's) \<Rightarrow> 's outcome" where
  "try_finally body cleanup =
     (case body of
        Done s \<Rightarrow> Done (cleanup s)
      | Raised err s \<Rightarrow> Raised err (cleanup s)
      | Stuck s \<Rightarrow> Stuck s)"

text \<open>
  What the browser, the camera and the content-delivery network decide:
  \<^item> \<open>scriptLoad\<close>: the promise that loads the hand-tracking script;
  \<^item> \<open>handsAvailable\<close>: whether \<open>window.Hands\<close> is set afterwards;
  \<^item> \<open>handsSetup\<close>: what constructing and configuring the tracker throws, if anything;
  \<^item> \<open>getUserMedia\<close>: the promise of the camera request;
  \<^item> \<open>elementsReady\<close>: whether the elements of the component are mounted
    (\<open>videoRef.current\<close>, and in the second listing \<open>canvasRef.current\<close>);
  \<^item> \<open>metadataLoaded\<close>: whether the video ever fires \<open>loadedmetadata\<close> (the promise
    of lines 230 to 234 resolves then and has no way to be rejected);
  \<^item> \<open>videoReady\<close>: the promise of lines 664 to 671, which waits for the video to play;
  \<^item> \<open>firstSend\<close>: the promise of the first \<open>handsRef.current.send\<close>, made by the first
    call of \<open>detectFrame\<close> (later frames run after \<open>startDetection\<close> has returned);
  \<^item> \<open>drawVideoFrame\<close>: what the first call of the camera-only drawing loop throws, if
    anything.
\<close>

record start_env =
  scriptLoad :: awaited
  handsAvailable :: bool
  handsSetup :: "thrown option"
  getUserMedia :: awaited
  elementsReady :: bool
  metadataLoaded :: bool
  videoReady :: awaited
  firstSend :: awaited
  drawVideoFrame :: "thrown option"

text \<open>First listing: \<open>initializeMediaPipe\<close> replaces whatever was thrown inside by one
  error of its own.\<close>

definition initializeMediaPipe :: "start_env \<Rightarrow> component_state \<Rightarrow> component_state outcome" where
  "initializeMediaPipe env s =
     try_catch
       (awaiting (scriptLoad env) s
          (\<lambda>s1. if \<not> handsAvailable env
                then Raised (ErrorObject ''Error'' ''MediaPipe Hands not available'') s1
                else (case handsSetup env of
                        Some err \<Rightarrow> Raised err s1
                      | None \<Rightarrow> Done (s1\<lparr>handsRef := True\<rparr>))))
       (\<lambda>err s'.
          Raised (ErrorObject ''Error'' ''Failed to load hand tracking. Please try again.'') s')"

text \<open>
  First listing, \<open>detectFrame\<close> (lines 237 to 242), called without \<open>await\<close>: the caller goes
  on at once. The \<open>send\<close> is not inside a \<open>try\<close>, so when its promise is rejected the
  promise of \<open>detectFrame\<close> is rejected too, and nothing handles it.
\<close>

definition detectFrame_v1 :: "start_env \<Rightarrow> component_state \<Rightarrow> component_state" where
  "detectFrame_v1 env s =
     (if elementsReady env \<and> handsRef s \<and> streamRef s
      then (case firstSend env of
              Rejected err \<Rightarrow> s\<lparr>unhandledRejections := unhandledRejections s @ [err]\<rparr>
            | Resolved \<Rightarrow> s
            | Never \<Rightarrow> s)
      else s)"

definition startDetectionCatch_v1 :: "thrown \<Rightarrow> component_state \<Rightarrow> component_state" where
  "startDetectionCatch_v1 err s =
     (case err of
        ErrorObject name message \<Rightarrow>
          if name = ''NotAllowedError'' then
            s\<lparr>error := Some
              ''Camera access denied. Please allow camera access in your browser settings.''\<rparr>
          else if name = ''NotFoundError'' then
            s\<lparr>error := Some ''No camera found. Please connect a camera and try again.''\<rparr>
          else
            s\<lparr>error := Some (if message \<noteq> [] then message
                             else ''Failed to start detection. Please try again.'')\<rparr>
      | NonError \<Rightarrow> s)"

text \<open>
  The \<open>try\<close> block of the first listing. This listing renders the canvas only while the
  component is active (lines 339 to 344), so \<open>canvasRef.current\<close> is set exactly when
  \<open>isActive\<close> holds.
\<close>

definition startDetectionTry_v1 :: "start_env \<Rightarrow> component_state \<Rightarrow> component_state outcome" where
  "startDetectionTry_v1 env s =
     and_then (initializeMediaPipe env s)
       (\<lambda>s1. awaiting (getUserMedia env) s1
          (\<lambda>s2. if elementsReady env \<and> isActive s2
                then awaiting (if metadataLoaded env then Resolved else Never)
                       (s2\<lparr>streamRef := True\<rparr>)
                       (\<lambda>s3. Done ((detectFrame_v1 env s3)\<lparr>isActive := True\<rparr>))
                else Done s2))"

definition startDetection_v1 :: "start_env \<Rightarrow> component_state \<Rightarrow> component_state outcome" where
  "startDetection_v1 env s =
     try_finally
       (try_catch (startDetectionTry_v1 env (s\<lparr>error := None, isLoading := True\<rparr>))
          (\<lambda>err s'. Done (startDetectionCatch_v1 err s')))
       (\<lambda>s'. s'\<lparr>isLoading := False\<rparr>)"






text \<open>An environment in which everything works.\<close>

definition workingEnv :: start_env where
  "workingEnv =
     \<lparr>scriptLoad = Resolved, handsAvailable = True, handsSetup = None,
      getUserMedia = Resolved, elementsReady = True, metadataLoaded = True,
      videoReady = Resolved, firstSend = Resolved, drawVideoFrame = None\<rparr>"



section \<open>Runs of the component\<close>

text \<open>
  The operations that change the accumulated text, as events: an append by the updater of
  \<open>processLandmarks\<close>, an append by the updater of \<open>processGesture\<close>, and \<open>clearText\<close>.
\<close>

datatype text_event = Appended string | AppendedDistinct string | Cleared

fun apply_event :: "props \<Rightarrow> component_state \<Rightarrow> text_event \<Rightarrow> component_state" where
  "apply_event p s (Appended d) = appendDetectedText p d s"
| "apply_event p s (AppendedDistinct d) = appendDistinctText p d s"
| "apply_event p s Cleared = clearText p s"

definition run_events :: "props \<Rightarrow> component_state \<Rightarrow> text_event list \<Rightarrow> component_state" where
  "run_events p s evs = foldl (apply_event p) s evs"

text \<open>What an event does to the text alone (shown below to agree with \<open>apply_event\<close>).\<close>

fun text_after :: "string \<Rightarrow> text_event \<Rightarrow> string" where
  "text_after prev (Appended d) = joinText prev d"
| "text_after prev (AppendedDistinct d) =
     (if lastWord prev \<noteq> Some d then joinText prev d else prev)"
| "text_after prev Cleared = []"


text \<open>The shape of a text: a space in front, a space at the end, two spaces in a row.\<close>

definition leadingSpace :: "string \<Rightarrow> bool" where
  "leadingSpace t = (case t of [] \<Rightarrow> False | c # _ \<Rightarrow> c = CHR '' '')"

definition trailingSpace :: "string \<Rightarrow> bool" where
  "trailingSpace t = (t \<noteq> [] \<and> last t = CHR '' '')"

fun doubledSpace :: "string \<Rightarrow> bool" where
  "doubledSpace (x # y # t) = ((x = CHR '' '' \<and> y = CHR '' '') \<or> doubledSpace (y # t))"
| "doubledSpace _ = False"

definition wellSpaced :: "string \<Rightarrow> bool" where
  "wellSpaced t = (\<not> leadingSpace t \<and> \<not> trailingSpace t \<and> \<not> doubledSpace t)"

definition cleanLabel :: "string \<Rightarrow> bool" where
  "cleanLabel d = (d \<noteq> [] \<and> wellSpaced d)"


text \<open>Two equal neighbours in a list of words.\<close>

fun adjacentEqual :: "'a list \<Rightarrow> bool" where
  "adjacentEqual (x # y # ws) = (x = y \<or> adjacentEqual (y # ws))"
| "adjacentEqual _ = False"

text \<open>
  A call of \<open>processGesture\<close> with everything it reads: the props its closure captured,
  the outcome of the translation, the label and the confidence. A run is a sequence of
  calls; \<open>publishes g s\<close> says that a call with label \<open>g\<close> in state \<open>s\<close> gets past the early
  \<open>return\<close>.
\<close>

type_synonym gesture_call = "props \<times> string option invoked \<times> string \<times> real"

definition call_label :: "gesture_call \<Rightarrow> string" where
  "call_label c = (case c of (p, translation, g, conf) \<Rightarrow> g)"

definition apply_call :: "component_state \<Rightarrow> gesture_call \<Rightarrow> component_state" where
  "apply_call s c = (case c of (p, translation, g, conf) \<Rightarrow> processGesture p translation g conf s)"

definition run_calls :: "component_state \<Rightarrow> gesture_call list \<Rightarrow> component_state" where
  "run_calls s cs = foldl apply_call s cs"

definition publishes :: "string \<Rightarrow> component_state \<Rightarrow> bool" where
  "publishes g s = (\<not> gestureCountRef (countGesture g s) < 3)"

text \<open>
  Runs in which calls of \<open>processGesture\<close> overlap: a step is the beginning of a call or
  the resumption of a call after its \<open>await\<close>. Any order of steps is admitted.
\<close>

datatype gesture_step =
  Begun props string real
| Finished props "string option invoked" string

fun apply_step :: "component_state \<Rightarrow> gesture_step \<Rightarrow> component_state" where
  "apply_step s (Begun p g conf) = snd (processGesture_begin p g conf s)"
| "apply_step s (Finished p translation g) = processGesture_finish p translation g s"

definition run_steps :: "component_state \<Rightarrow> gesture_step list \<Rightarrow> component_state" where
  "run_steps s steps = foldl apply_step s steps"

text \<open>The labels of the calls begun in a run, in order.\<close>

fun begun_labels :: "gesture_step list \<Rightarrow> string list" where
  "begun_labels [] = []"
| "begun_labels (Begun p g conf # steps) = g # begun_labels steps"
| "begun_labels (Finished p translation g # steps) = begun_labels steps"

text \<open>
  Runs of the updater of \<open>processGesture\<close> over a given list of display labels: appends
  of labels of the list, and clears.
\<close>

fun labelEvent :: "string list \<Rightarrow> text_event \<Rightarrow> bool" where
  "labelEvent ls (AppendedDistinct d) = (d \<in> set ls)"
| "labelEvent ls Cleared = True"
| "labelEvent ls (Appended d) = False"

text \<open>
  \<open>chains d' d\<close>: the label \<open>d\<close> begins with the word that ends the label \<open>d'\<close>, and is
  not that bare word alone. \<open>compatibleLabels ls\<close>: no label of the list holds two equal
  consecutive words, and no two labels of the list (a label and itself included) chain.
\<close>

definition chains :: "string \<Rightarrow> string \<Rightarrow> bool" where
  "chains d' d =
     (wordsOf d' \<noteq> [] \<and> wordsOf d \<noteq> [] \<and> last (wordsOf d') = hd (wordsOf d) \<and>
      wordsOf d \<noteq> [d])"

definition compatibleLabels :: "string list \<Rightarrow> bool" where
  "compatibleLabels ls =
     (list_all (\<lambda>d. \<not> adjacentEqual (wordsOf d)) ls \<and>
      list_all (\<lambda>d. list_all (\<lambda>d'. \<not> chains d' d) ls) ls)"

text \<open>A text that is empty of words or ends with the last word of a label of the list.\<close>

definition endsLabel :: "string list \<Rightarrow> string \<Rightarrow> bool" where
  "endsLabel ls t =
     (wordsOf t = [] \<or>
      (\<exists>d' \<in> set ls. wordsOf d' \<noteq> [] \<and> last (wordsOf t) = last (wordsOf d')))"

text \<open>Props and calls used to run the definitions on concrete inputs.\<close>

definition enProps :: props where
  "enProps = \<lparr>language = ''en'', onDetection = True\<rparr>"

definition hiProps :: props where
  "hiProps = \<lparr>language = ''hi'', onDetection = True\<rparr>"

definition yesCall :: gesture_call where
  "yesCall = (enProps, Threw, ''Yes'', 0.85)"


definition echoCall :: gesture_call where
  "echoCall = (hiProps, Returned (Some ''nahin nahin''), ''No'', 0.80)"


definition englishRun :: "text_event list" where
  "englishRun =
     [AppendedDistinct ''Yes'', AppendedDistinct ''Yes'', Cleared,
      AppendedDistinct ''I Love You'', AppendedDistinct ''I Love You'',
      AppendedDistinct ''Thank You'']"

text \<open>A run of one-word translations, the first of them published twice.\<close>

definition hindiRun :: "text_event list" where
  "hindiRun = [AppendedDistinct ''haan'', AppendedDistinct ''haan'', AppendedDistinct ''nahin'']"

text \<open>A state in which "Yes" has been published and detected twice more.\<close>

definition yesShown :: component_state where
  "yesShown =
     initialState\<lparr>detectedText := ''Yes'', currentGesture := ''Yes'', confidence_state := 0.85,
       lastGestureRef := ''Yes'', gestureCountRef := 2, onDetectionCalls := [''Yes'']\<rparr>"


section \<open>Facts about the classifier\<close>

lemma js_get_in_range: "i < length xs \<Longrightarrow> js_get xs i = Some (xs ! i)"
  by (simp add: js_get_def)

text \<open>On 21 landmarks every read of the list is in range, and the function is the rule
  chain applied to the five comparisons.\<close>

lemma classifyGesture_21:
  assumes "length landmarks = 21"
  shows "classifyGesture landmarks =
    Inr (gestureRules
      (js_less (js_get (landmarks ! 4) 0) (js_get (landmarks ! 3) 0))
      (js_less (js_get (landmarks ! 8) 1) (js_get (landmarks ! 5) 1))
      (js_less (js_get (landmarks ! 12) 1) (js_get (landmarks ! 9) 1))
      (js_less (js_get (landmarks ! 16) 1) (js_get (landmarks ! 13) 1))
      (js_less (js_get (landmarks ! 20) 1) (js_get (landmarks ! 17) 1))
      (thumbIndexDist (landmarks ! 4) (landmarks ! 8)))"
  using assms
  by (simp add: classifyGesture_def classifyUnguarded_def coord_less_def js_get_in_range)

text \<open>Without the guard a shorter list would raise: the guard is what keeps every read
  inside the list.\<close>

lemma classifyUnguarded_short:
  "length landmarks < 21 \<Longrightarrow> classifyUnguarded landmarks = Inl TypeError"
  by (simp add: classifyUnguarded_def coord_less_def js_get_def split: sum.splits option.splits)

lemma gestureRules_cases:
  "gestureRules t i m r p d = None \<or>
   gestureRules t i m r p d = Some \<lparr>gesture = ''Yes'', confidence = 0.85\<rparr> \<or>
   gestureRules t i m r p d = Some \<lparr>gesture = ''2'', confidence = 0.82\<rparr> \<or>
   gestureRules t i m r p d = Some \<lparr>gesture = ''1'', confidence = 0.85\<rparr> \<or>
   gestureRules t i m r p d = Some \<lparr>gesture = ''3'', confidence = 0.80\<rparr> \<or>
   gestureRules t i m r p d = Some \<lparr>gesture = ''4'', confidence = 0.80\<rparr> \<or>
   gestureRules t i m r p d = Some \<lparr>gesture = ''Hello'', confidence = 0.88\<rparr> \<or>
   gestureRules t i m r p d = Some \<lparr>gesture = ''I Love You'', confidence = 0.85\<rparr> \<or>
   gestureRules t i m r p d = Some \<lparr>gesture = ''No'', confidence = 0.80\<rparr> \<or>
   gestureRules t i m r p d = Some \<lparr>gesture = ''Thank You'', confidence = 0.82\<rparr>"
  unfolding gestureRules_def by (cases t; cases i; cases m; cases r; cases p) simp_all

text \<open>Each of the nine labels is returned for some outcome of the comparisons, and the
  nine are different.\<close>

lemma gestureRules_reach:
  "gestureRules True False False False False d = Some \<lparr>gesture = ''Yes'', confidence = 0.85\<rparr>"
  "gestureRules t True True False False d = Some \<lparr>gesture = ''2'', confidence = 0.82\<rparr>"
  "gestureRules False True False False False d = Some \<lparr>gesture = ''1'', confidence = 0.85\<rparr>"
  "gestureRules t True True True False d = Some \<lparr>gesture = ''3'', confidence = 0.80\<rparr>"
  "gestureRules False True True True True d = Some \<lparr>gesture = ''4'', confidence = 0.80\<rparr>"
  "gestureRules True True True True True d = Some \<lparr>gesture = ''Hello'', confidence = 0.88\<rparr>"
  "gestureRules True True False False True d =
     Some \<lparr>gesture = ''I Love You'', confidence = 0.85\<rparr>"
  "gestureRules False False False False False d = Some \<lparr>gesture = ''No'', confidence = 0.80\<rparr>"
  "gestureRules t False True True True (Some 0.05) =
     Some \<lparr>gesture = ''Thank You'', confidence = 0.82\<rparr>"
  by (simp_all add: gestureRules_def extendedCount_def js_less_def)

lemma gestureLabels_nine: "distinct gestureLabels \<and> length gestureLabels = 9"
  by (simp add: gestureLabels_def)

lemma classifyGesture_cases:
  "classifyGesture landmarks = Inr None \<or>
   classifyGesture landmarks = Inr (Some \<lparr>gesture = ''Yes'', confidence = 0.85\<rparr>) \<or>
   classifyGesture landmarks = Inr (Some \<lparr>gesture = ''2'', confidence = 0.82\<rparr>) \<or>
   classifyGesture landmarks = Inr (Some \<lparr>gesture = ''1'', confidence = 0.85\<rparr>) \<or>
   classifyGesture landmarks = Inr (Some \<lparr>gesture = ''3'', confidence = 0.80\<rparr>) \<or>
   classifyGesture landmarks = Inr (Some \<lparr>gesture = ''4'', confidence = 0.80\<rparr>) \<or>
   classifyGesture landmarks = Inr (Some \<lparr>gesture = ''Hello'', confidence = 0.88\<rparr>) \<or>
   classifyGesture landmarks = Inr (Some \<lparr>gesture = ''I Love You'', confidence = 0.85\<rparr>) \<or>
   classifyGesture landmarks = Inr (Some \<lparr>gesture = ''No'', confidence = 0.80\<rparr>) \<or>
   classifyGesture landmarks = Inr (Some \<lparr>gesture = ''Thank You'', confidence = 0.82\<rparr>)"
proof (cases "length landmarks = 21")
  case True
  show ?thesis
    unfolding classifyGesture_21 [OF True] sum.inject by (rule gestureRules_cases)
next
  case False
  then show ?thesis by (simp add: classifyGesture_def)
qed

lemma classifyGesture_openHand:
  "classifyGesture openHand = Inr (Some \<lparr>gesture = ''Hello'', confidence = 0.88\<rparr>)"
  by (simp add: classifyGesture_def classifyUnguarded_def openHand_def coord_less_def
      js_get_def js_less_def gestureRules_def extendedCount_def thumbIndexDist_def)

lemma sqrt_less_tenth: "sqrt x * 10 < 1 \<longleftrightarrow> x * 100 < 1"
proof -
  have a: "sqrt (1 / 100 :: real) = 1 / 10"
    by (rule real_sqrt_unique) (simp_all add: power2_eq_square)
  have "sqrt x * 10 < 1 \<longleftrightarrow> sqrt x < sqrt (1 / 100)"
    unfolding a by auto
  also have "\<dots> \<longleftrightarrow> x < 1 / 100"
    by (rule real_sqrt_less_iff)
  also have "\<dots> \<longleftrightarrow> x * 100 < 1"
    by auto
  finally show ?thesis .
qed

text \<open>The last rule is reachable: the distance test is evaluated on \<open>okHand\<close>.\<close>

lemma classifyGesture_okHand:
  "classifyGesture okHand = Inr (Some \<lparr>gesture = ''Thank You'', confidence = 0.82\<rparr>)"
  by (simp add: classifyGesture_def classifyUnguarded_def okHand_def coord_less_def
      js_get_def js_less_def gestureRules_def extendedCount_def thumbIndexDist_def
      sqrt_less_tenth power2_eq_square)

text \<open>
  C1. On every list of 21 landmarks \<open>classifyGesture\<close> returns \<open>null\<close> or a result whose
  label is one of the nine strings "Yes", "No", "Hello", "1", "2", "3", "4", "I Love You",
  "Thank You"; it raises nothing.
\<close>

theorem classifyGesture_label_set:
  "length landmarks = 21 \<Longrightarrow>
   classifyGesture landmarks = Inr None \<or>
   (\<exists>r. classifyGesture landmarks = Inr (Some r) \<and>
        gesture r \<in> {''Yes'', ''No'', ''Hello'', ''1'', ''2'', ''3'', ''4'',
                      ''I Love You'', ''Thank You''})"
  using classifyGesture_cases [of landmarks] by auto

theorem classifyGesture_label_set_witness:
  "length openHand = 21 \<and>
   (classifyGesture openHand = Inr None \<or>
    (\<exists>r. classifyGesture openHand = Inr (Some r) \<and>
         gesture r \<in> {''Yes'', ''No'', ''Hello'', ''1'', ''2'', ''3'', ''4'',
                       ''I Love You'', ''Thank You''}))"
  using classifyGesture_label_set [of openHand] by (simp add: openHand_def)

text \<open>
  C2. On every list whose length is not 21, the empty list included, \<open>classifyGesture\<close>
  returns \<open>null\<close>: the guard answers before any landmark is read, so no read outside the
  list happens (such a read would show as \<open>Inl TypeError\<close>, see
  \<open>classifyUnguarded_short\<close>).
\<close>

theorem classifyGesture_wrong_length:
  "length landmarks \<noteq> 21 \<Longrightarrow> classifyGesture landmarks = Inr None"
  by (simp add: classifyGesture_def)

theorem classifyGesture_wrong_length_witness:
  "length (take 20 openHand) \<noteq> 21 \<and> classifyGesture (take 20 openHand) = Inr None \<and>
   classifyGesture [] = Inr None"
  using classifyGesture_wrong_length [of "take 20 openHand"]
    classifyGesture_wrong_length [of "[]"]
  by (simp add: openHand_def)

text \<open>
  C3. On 21 three-dimensional landmarks with all five fingers extended (the x of the thumb
  tip below the x of landmark 3, and the y of the index, middle, ring and pinky tips below
  the y of their knuckles) \<open>classifyGesture\<close> returns "Hello" with confidence 0.88.
\<close>

theorem classifyGesture_all_extended:
  assumes "length landmarks = 21"
    and "\<forall>l \<in> set landmarks. length l = 3"
    and "landmarks ! 4 ! 0 < landmarks ! 3 ! 0"
    and "landmarks ! 8 ! 1 < landmarks ! 5 ! 1"
    and "landmarks ! 12 ! 1 < landmarks ! 9 ! 1"
    and "landmarks ! 16 ! 1 < landmarks ! 13 ! 1"
    and "landmarks ! 20 ! 1 < landmarks ! 17 ! 1"
  shows "classifyGesture landmarks = Inr (Some \<lparr>gesture = ''Hello'', confidence = 0.88\<rparr>)"
proof -
  have len: "length (landmarks ! i) = 3" if "i < 21" for i
    using assms(1,2) that by simp
  have rd: "js_get (landmarks ! i) k = Some (landmarks ! i ! k)" if "i < 21" "k < 3" for i k
    using len [OF that(1)] that(2) by (simp add: js_get_def)
  show ?thesis
    unfolding classifyGesture_21 [OF assms(1)]
    using assms(3-7) by (simp add: rd js_less_def gestureRules_def extendedCount_def)
qed

theorem classifyGesture_all_extended_witness:
  "length openHand = 21 \<and> list_all (\<lambda>l. length l = 3) openHand \<and>
   openHand ! 4 ! 0 < openHand ! 3 ! 0 \<and>
   openHand ! 8 ! 1 < openHand ! 5 ! 1 \<and>
   openHand ! 12 ! 1 < openHand ! 9 ! 1 \<and>
   openHand ! 16 ! 1 < openHand ! 13 ! 1 \<and>
   openHand ! 20 ! 1 < openHand ! 17 ! 1 \<and>
   classifyGesture openHand = Inr (Some \<lparr>gesture = ''Hello'', confidence = 0.88\<rparr>)"
  using classifyGesture_all_extended [of openHand] by (simp add: openHand_def)

text \<open>
  C8. Whenever \<open>classifyGesture\<close> returns a match, its confidence is one of 0.80, 0.82,
  0.85 and 0.88, hence strictly between 0 and 1.
\<close>

theorem classifyGesture_confidence:
  "classifyGesture landmarks = Inr (Some r) \<Longrightarrow>
   confidence r \<in> {0.80, 0.82, 0.85, 0.88} \<and> 0 < confidence r \<and> confidence r < 1"
  using classifyGesture_cases [of landmarks] by auto

theorem classifyGesture_confidence_witness:
  "classifyGesture openHand = Inr (Some \<lparr>gesture = ''Hello'', confidence = 0.88\<rparr>) \<and>
   confidence \<lparr>gesture = ''Hello'', confidence = 0.88\<rparr> \<in> {0.80, 0.82, 0.85, 0.88} \<and>
   0 < confidence \<lparr>gesture = ''Hello'', confidence = 0.88\<rparr> \<and>
   confidence \<lparr>gesture = ''Hello'', confidence = 0.88\<rparr> < 1"
  using classifyGesture_confidence [OF classifyGesture_openHand] classifyGesture_openHand
  by blast

section \<open>Facts about the component\<close>

text \<open>An uninterrupted call, written as the source has it.\<close>

lemma processGesture_unfold:
  "processGesture p translation g conf s =
     (let s1 = countGesture g s
      in if gestureCountRef s1 < 3 then s1
         else
           let s2 = s1\<lparr>currentGesture := g, confidence_state := conf\<rparr>;
               s3 = (if language p \<noteq> ''en''
                     then s2\<lparr>translateCalls := translateCalls s2 @ [(g, language p)]\<rparr>
                     else s2);
               displayText = displayLabel p translation g;
               s4 = appendDistinctText p displayText s3
           in s4\<lparr>gestureCountRef := 0\<rparr>)"
  by (simp add: processGesture_def processGesture_begin_def processGesture_finish_def Let_def)

lemma notify_fields [simp]:
  "detectedText (notify p t s) = detectedText s"
  "lastGestureRef (notify p t s) = lastGestureRef s"
  "gestureCountRef (notify p t s) = gestureCountRef s"
  "currentGesture (notify p t s) = currentGesture s"
  "confidence_state (notify p t s) = confidence_state s"
  "translateCalls (notify p t s) = translateCalls s"
  by (simp_all add: notify_def)

lemma appendDistinctText_fields [simp]:
  "lastGestureRef (appendDistinctText p d s) = lastGestureRef s"
  "gestureCountRef (appendDistinctText p d s) = gestureCountRef s"
  "currentGesture (appendDistinctText p d s) = currentGesture s"
  "confidence_state (appendDistinctText p d s) = confidence_state s"
  "translateCalls (appendDistinctText p d s) = translateCalls s"
  by (simp_all add: appendDistinctText_def Let_def)

text \<open>
  C5. After \<open>clearText\<close> the accumulated text is empty, whatever it was, and the
  \<open>onDetection\<close> callback, when supplied, has been called once more, with the empty string.
\<close>

theorem clearText_empties:
  "detectedText (clearText p s) = [] \<and>
   (onDetection p \<longrightarrow> onDetectionCalls (clearText p s) = onDetectionCalls s @ [[]]) \<and>
   (\<not> onDetection p \<longrightarrow> onDetectionCalls (clearText p s) = onDetectionCalls s)"
  by (simp add: clearText_def notify_def)

theorem clearText_empties_witness:
  "onDetection enProps \<and>
   detectedText (clearText enProps (initialState\<lparr>detectedText := ''Hello Yes''\<rparr>)) = [] \<and>
   onDetectionCalls (clearText enProps (initialState\<lparr>detectedText := ''Hello Yes''\<rparr>)) = [[]] \<and>
   \<not> onDetection (enProps\<lparr>onDetection := False\<rparr>) \<and>
   onDetectionCalls (clearText (enProps\<lparr>onDetection := False\<rparr>)
     (initialState\<lparr>detectedText := ''Hello Yes''\<rparr>)) = []"
  using clearText_empties [of enProps "initialState\<lparr>detectedText := ''Hello Yes''\<rparr>"]
    clearText_empties [of "enProps\<lparr>onDetection := False\<rparr>"
      "initialState\<lparr>detectedText := ''Hello Yes''\<rparr>"]
  by (simp add: enProps_def initialState_def)

subsection \<open>The stability counter\<close>

lemma publishes_iff:
  "publishes g s \<longleftrightarrow> g = lastGestureRef s \<and> 2 \<le> gestureCountRef s"
  by (auto simp: publishes_def countGesture_def)

lemma processGesture_begin_gate: "fst (processGesture_begin p g conf s) = publishes g s"
  by (simp add: processGesture_begin_def publishes_def Let_def)

lemma processGesture_begin_refs:
  "lastGestureRef (snd (processGesture_begin p g conf s)) = g"
  "gestureCountRef (snd (processGesture_begin p g conf s)) =
     (if g = lastGestureRef s then gestureCountRef s + 1 else 1)"
  by (simp_all add: processGesture_begin_def countGesture_def Let_def)

lemma processGesture_finish_refs:
  "lastGestureRef (processGesture_finish p tr g s) = lastGestureRef s"
  "gestureCountRef (processGesture_finish p tr g s) = 0"
  by (simp_all add: processGesture_finish_def Let_def)

lemma processGesture_refs:
  "lastGestureRef (processGesture p tr g conf s) = g"
  "gestureCountRef (processGesture p tr g conf s) =
     (if publishes g s then 0
      else if g = lastGestureRef s then gestureCountRef s + 1 else 1)"
  by (auto simp: processGesture_unfold publishes_def countGesture_def Let_def)

lemma run_calls_snoc: "run_calls s (cs @ [c]) = apply_call (run_calls s cs) c"
  by (simp add: run_calls_def)

lemma run_steps_snoc: "run_steps s (steps @ [st]) = apply_step (run_steps s steps) st"
  by (simp add: run_steps_def)

lemma run_steps_Cons: "run_steps s (st # steps) = run_steps (apply_step s st) steps"
  by (simp add: run_steps_def)

lemma run_steps_Nil: "run_steps s [] = s"
  by (simp add: run_steps_def)

lemma begun_labels_snoc:
  "begun_labels (steps @ [st]) =
     begun_labels steps @ (case st of Begun p g conf \<Rightarrow> [g] | Finished p tr g \<Rightarrow> [])"
  by (induction steps rule: begun_labels.induct) (simp_all split: gesture_step.splits)

text \<open>An uninterrupted call is a call begun and, when it got past the early \<open>return\<close>,
  resumed at once.\<close>

lemma processGesture_steps:
  "processGesture p tr g conf s =
     (if publishes g s then run_steps s [Begun p g conf, Finished p tr g]
      else run_steps s [Begun p g conf])"
  by (cases "processGesture_begin p g conf s")
    (use processGesture_begin_gate [of p g conf s] in
      \<open>auto simp: processGesture_def run_steps_def\<close>)

text \<open>The counter never exceeds the number of calls begun, counted back from the latest
  one, that carried the label now stored in \<open>lastGestureRef\<close>.\<close>

lemma count_bounded_by_run:
  "gestureCountRef s0 = 0 \<Longrightarrow>
   gestureCountRef (run_steps s0 steps) \<le>
     length (takeWhile (\<lambda>l. l = lastGestureRef (run_steps s0 steps))
       (rev (begun_labels steps)))"
proof (induction steps rule: rev_induct)
  case Nil
  then show ?case by (simp add: run_steps_def)
next
  case (snoc st steps)
  show ?case
  proof (cases st)
    case (Begun p g conf)
    with snoc show ?thesis
      by (simp add: run_steps_snoc begun_labels_snoc processGesture_begin_refs)
  next
    case (Finished p tr g)
    then show ?thesis
      by (simp add: run_steps_snoc processGesture_finish_refs)
  qed
qed

lemma takeWhile_two:
  assumes "2 \<le> length (takeWhile P (rev ls))"
  shows "\<exists>pre l1 l2. ls = pre @ [l1, l2] \<and> P l1 \<and> P l2"
proof -
  obtain l2 r where r: "rev ls = l2 # r" and l2: "P l2"
    using assms by (cases "rev ls") (auto split: if_splits)
  from assms r l2 obtain l1 r' where r': "r = l1 # r'" and l1: "P l1"
    by (cases r) (auto split: if_splits)
  have "ls = rev r' @ [l1, l2]"
    using r r' by (metis append.assoc append_Cons append_Nil rev.simps(2) rev_rev_ident)
  with l1 l2 show ?thesis by blast
qed

text \<open>
  C10. A call of \<open>processGesture\<close> gets past the early \<open>return\<close> (and only then updates
  the current gesture and, when it resumes, the text) only if the call begun before it and
  the one before that carried the same label: a gesture is published only on the third of
  three consecutive calls with one label, also when calls overlap at the \<open>await\<close>. The
  counter is incremented on a repeated label and set to 1 on a different one, the call
  returns with nothing else changed while the counter is below 3, and a publishing call
  leaves the counter at 0.
\<close>

theorem processGesture_stability:
  "(publishes g (run_steps initialState steps) \<longrightarrow>
      (\<exists>pre. begun_labels steps = pre @ [g, g])) \<and>
   fst (processGesture_begin p g conf s) = publishes g s \<and>
   (g = lastGestureRef s \<and> gestureCountRef s + 1 < 3 \<longrightarrow>
      processGesture p tr g conf s = s\<lparr>gestureCountRef := gestureCountRef s + 1\<rparr>) \<and>
   (g \<noteq> lastGestureRef s \<longrightarrow>
      processGesture p tr g conf s = s\<lparr>lastGestureRef := g, gestureCountRef := 1\<rparr>) \<and>
   (g = lastGestureRef s \<and> 3 \<le> gestureCountRef s + 1 \<longrightarrow>
      gestureCountRef (processGesture p tr g conf s) = 0 \<and>
      currentGesture (processGesture p tr g conf s) = g \<and>
      confidence_state (processGesture p tr g conf s) = conf) \<and>
   gestureCountRef (processGesture_finish p tr g s) = 0"
proof (intro conjI impI)
  assume pub: "publishes g (run_steps initialState steps)"
  let ?s = "run_steps initialState steps"
  from pub have g: "g = lastGestureRef ?s" and two: "2 \<le> gestureCountRef ?s"
    by (simp_all add: publishes_iff)
  have "gestureCountRef ?s \<le> length (takeWhile (\<lambda>l. l = g) (rev (begun_labels steps)))"
    using count_bounded_by_run [of initialState steps] g by (simp add: initialState_def)
  with two have "2 \<le> length (takeWhile (\<lambda>l. l = g) (rev (begun_labels steps)))" by simp
  from takeWhile_two [OF this]
  show "\<exists>pre. begun_labels steps = pre @ [g, g]" by blast
next
  show "fst (processGesture_begin p g conf s) = publishes g s"
    by (rule processGesture_begin_gate)
next
  assume "g = lastGestureRef s \<and> gestureCountRef s + 1 < 3"
  then show "processGesture p tr g conf s = s\<lparr>gestureCountRef := gestureCountRef s + 1\<rparr>"
    by (simp add: processGesture_unfold countGesture_def)
next
  assume "g \<noteq> lastGestureRef s"
  then show "processGesture p tr g conf s = s\<lparr>lastGestureRef := g, gestureCountRef := 1\<rparr>"
    by (simp add: processGesture_unfold countGesture_def)
next
  assume a: "g = lastGestureRef s \<and> 3 \<le> gestureCountRef s + 1"
  then show "gestureCountRef (processGesture p tr g conf s) = 0"
    by (simp add: processGesture_unfold countGesture_def Let_def)
  from a show "currentGesture (processGesture p tr g conf s) = g"
    by (simp add: processGesture_unfold countGesture_def Let_def)
  from a show "confidence_state (processGesture p tr g conf s) = conf"
    by (simp add: processGesture_unfold countGesture_def Let_def)
next
  show "gestureCountRef (processGesture_finish p tr g s) = 0"
    by (rule processGesture_finish_refs)
qed

theorem processGesture_stability_witness:
  "publishes ''Yes'' (run_steps initialState [Begun hiProps ''Yes'' 0.85, Begun hiProps ''Yes'' 0.85]) \<and>
   (\<exists>pre. begun_labels [Begun hiProps ''Yes'' 0.85, Begun hiProps ''Yes'' 0.85] =
      pre @ [''Yes'', ''Yes'']) \<and>
   ''Yes'' = lastGestureRef (run_calls initialState [yesCall]) \<and>
   gestureCountRef (run_calls initialState [yesCall]) + 1 < 3 \<and>
   processGesture enProps Threw ''Yes'' 0.85 (run_calls initialState [yesCall]) =
     (run_calls initialState [yesCall])\<lparr>gestureCountRef := 2\<rparr> \<and>
   ''No'' \<noteq> lastGestureRef (run_calls initialState [yesCall]) \<and>
   processGesture enProps Threw ''No'' 0.80 (run_calls initialState [yesCall]) =
     (run_calls initialState [yesCall])\<lparr>lastGestureRef := ''No'', gestureCountRef := 1\<rparr> \<and>
   ''Yes'' = lastGestureRef (run_calls initialState [yesCall, yesCall]) \<and>
   3 \<le> gestureCountRef (run_calls initialState [yesCall, yesCall]) + 1 \<and>
   gestureCountRef
     (processGesture enProps Threw ''Yes'' 0.85 (run_calls initialState [yesCall, yesCall])) = 0 \<and>
   currentGesture
     (processGesture enProps Threw ''Yes'' 0.85 (run_calls initialState [yesCall, yesCall])) = ''Yes''"
proof -
  have one: "run_calls initialState [yesCall] =
      initialState\<lparr>lastGestureRef := ''Yes'', gestureCountRef := 1\<rparr>"
    by (simp add: run_calls_def apply_call_def yesCall_def processGesture_unfold
        countGesture_def initialState_def)
  have two: "run_calls initialState [yesCall, yesCall] =
      initialState\<lparr>lastGestureRef := ''Yes'', gestureCountRef := 2\<rparr>"
    by (simp add: run_calls_def apply_call_def yesCall_def processGesture_unfold
        countGesture_def initialState_def)
  have steps: "run_steps initialState [Begun hiProps ''Yes'' 0.85, Begun hiProps ''Yes'' 0.85] =
      initialState\<lparr>lastGestureRef := ''Yes'', gestureCountRef := 2\<rparr>"
    by (simp add: run_steps_def processGesture_begin_def countGesture_def initialState_def)
  have pub: "publishes ''Yes''
      (run_steps initialState [Begun hiProps ''Yes'' 0.85, Begun hiProps ''Yes'' 0.85])"
    unfolding publishes_iff steps by simp
  have a1: "''Yes'' = lastGestureRef (run_calls initialState [yesCall]) \<and>
      gestureCountRef (run_calls initialState [yesCall]) + 1 < 3"
    unfolding one by simp
  have a2: "''No'' \<noteq> lastGestureRef (run_calls initialState [yesCall])"
    unfolding one by simp
  have a3: "''Yes'' = lastGestureRef (run_calls initialState [yesCall, yesCall]) \<and>
      3 \<le> gestureCountRef (run_calls initialState [yesCall, yesCall]) + 1"
    unfolding two by simp
  have c: "gestureCountRef (run_calls initialState [yesCall]) + 1 = 2"
    unfolding one by simp
  from processGesture_stability [of "''Yes''"
            "[Begun hiProps ''Yes'' 0.85, Begun hiProps ''Yes'' 0.85]"
            enProps "0.85" "run_calls initialState [yesCall]" Threw]
    processGesture_stability [of "''No''" "[]" enProps "0.80"
            "run_calls initialState [yesCall]" Threw]
    processGesture_stability [of "''Yes''" "[]" enProps "0.85"
            "run_calls initialState [yesCall, yesCall]" Threw]
    pub a1 a2 a3 c
  show ?thesis by metis
qed

subsection \<open>The shape of the accumulated text\<close>






lemma updater_text:
  "detectedText (appendDetectedText p d s) = joinText (detectedText s) d"
  "detectedText (appendDistinctText p d s) =
     (if lastWord (detectedText s) \<noteq> Some d then joinText (detectedText s) d else detectedText s)"
  "detectedText (clearText p s) = []"
  by (simp_all add: appendDetectedText_def appendDistinctText_def clearText_def Let_def)

lemma run_events_snoc: "run_events p s (evs @ [e]) = apply_event p (run_events p s evs) e"
  by (simp add: run_events_def)




text \<open>The classifier's own labels are non-empty and have no space in front, at the end
  or doubled.\<close>

lemma gestureLabels_clean: "\<forall>d \<in> set gestureLabels. cleanLabel d"
  by (simp add: gestureLabels_def cleanLabel_def wellSpaced_def leadingSpace_def
      trailingSpace_def)

lemma apply_event_text: "detectedText (apply_event p s e) = text_after (detectedText s) e"
  by (cases e) (simp_all add: updater_text)

lemma run_events_text:
  "detectedText (run_events p s evs) = foldl text_after (detectedText s) evs"
proof (induction evs rule: rev_induct)
  case Nil
  show ?case by (simp add: run_events_def)
next
  case (snoc e evs)
  then show ?case by (simp add: run_events_snoc apply_event_text)
qed

lemma lastWord_empty: "lastWord [] = None"
  by (simp add: lastWord_def wordsOf_def)

lemma run_calls_Cons: "run_calls s (c # cs) = run_calls (apply_call s c) cs"
  by (simp add: run_calls_def)

lemma run_calls_Nil: "run_calls s [] = s"
  by (simp add: run_calls_def)





subsection \<open>The words of the accumulated text\<close>

lemma split_on_nonempty: "split_on c xs \<noteq> []"
  by (induction xs) (auto split: list.splits)

lemma split_on_append: "split_on c (a @ c # b) = split_on c a @ split_on c b"
proof (induction a)
  case Nil
  show ?case by simp
next
  case (Cons x a)
  obtain w ws where w: "split_on c a = w # ws"
    using split_on_nonempty [of c a] by (cases "split_on c a") auto
  with Cons show ?case by simp
qed

lemma wordsOf_joinText: "wordsOf (joinText prev d) = wordsOf prev @ wordsOf d"
proof (cases "prev = []")
  case True
  then show ?thesis by (simp add: joinText_def wordsOf_def)
next
  case False
  have "split_on CHR '' '' (prev @ CHR '' '' # d) =
          split_on CHR '' '' prev @ split_on CHR '' '' d"
    by (rule split_on_append)
  with False show ?thesis by (simp add: joinText_def wordsOf_def)
qed

lemma adjacentEqual_append:
  "adjacentEqual (ws @ vs) \<longleftrightarrow>
     adjacentEqual ws \<or> adjacentEqual vs \<or> (ws \<noteq> [] \<and> vs \<noteq> [] \<and> last ws = hd vs)"
proof (induction ws rule: adjacentEqual.induct)
  fix x :: 'a
  show "adjacentEqual ([x] @ vs) \<longleftrightarrow>
     adjacentEqual [x] \<or> adjacentEqual vs \<or> ([x] \<noteq> [] \<and> vs \<noteq> [] \<and> last [x] = hd vs)"
    by (cases vs) auto
qed auto

lemma wordsOf_labels:
  "wordsOf ''Yes'' = [''Yes'']" "wordsOf ''No'' = [''No'']" "wordsOf ''Hello'' = [''Hello'']"
  "wordsOf ''1'' = [''1'']" "wordsOf ''2'' = [''2'']" "wordsOf ''3'' = [''3'']"
  "wordsOf ''4'' = [''4'']" "wordsOf ''I Love You'' = [''I'', ''Love'', ''You'']"
  "wordsOf ''Thank You'' = [''Thank'', ''You'']"
  by (simp_all add: wordsOf_def)

lemma split_on_pieces: "w \<in> set (split_on c xs) \<Longrightarrow> c \<notin> set w"
proof (induction xs arbitrary: w)
  case Nil
  then show ?case by simp
next
  case (Cons x xs)
  obtain v vs where v: "split_on c xs = v # vs"
    using split_on_nonempty [of c xs] by (cases "split_on c xs") auto
  with Cons show ?case by (auto split: if_splits)
qed

lemma split_on_whole: "c \<notin> set xs \<Longrightarrow> split_on c xs = [xs]"
  by (induction xs) auto

text \<open>A label that is its own first word is one bare word.\<close>

lemma own_word:
  assumes "wordsOf d \<noteq> []" and "hd (wordsOf d) = d"
  shows "wordsOf d = [d]"
proof -
  have "hd (wordsOf d) \<in> set (wordsOf d)" using assms(1) by simp
  with assms(2) have m: "d \<in> set (split_on CHR '' '' d)" and ne: "d \<noteq> []"
    by (auto simp: wordsOf_def)
  from split_on_pieces [OF m] have "split_on CHR '' '' d = [d]" by (rule split_on_whole)
  with ne show ?thesis by (simp add: wordsOf_def)
qed

lemma compatible_step:
  assumes c: "compatibleLabels ls" and d: "d \<in> set ls"
    and na: "\<not> adjacentEqual (wordsOf prev)" and en: "endsLabel ls prev"
    and lw: "lastWord prev \<noteq> Some d"
  shows "\<not> adjacentEqual (wordsOf (joinText prev d)) \<and> endsLabel ls (joinText prev d)"
proof (cases "wordsOf d = []")
  case True
  with na en show ?thesis by (simp add: wordsOf_joinText endsLabel_def)
next
  case False
  from c d have nd: "\<not> adjacentEqual (wordsOf d)"
    by (simp add: compatibleLabels_def list_all_iff)
  have junction: "last (wordsOf prev) \<noteq> hd (wordsOf d)" if ne: "wordsOf prev \<noteq> []"
  proof
    assume eq: "last (wordsOf prev) = hd (wordsOf d)"
    from en ne obtain d' where d': "d' \<in> set ls" "wordsOf d' \<noteq> []"
      "last (wordsOf prev) = last (wordsOf d')"
      by (auto simp: endsLabel_def)
    from c d d' have "\<not> chains d' d"
      by (simp add: compatibleLabels_def list_all_iff)
    with d' eq False have "wordsOf d = [d]" by (simp add: chains_def)
    with eq have "last (wordsOf prev) = d" by simp
    with ne lw show False by (simp add: lastWord_def)
  qed
  have 1: "\<not> adjacentEqual (wordsOf (joinText prev d))"
    using na nd junction False by (auto simp: wordsOf_joinText adjacentEqual_append)
  have "last (wordsOf (joinText prev d)) = last (wordsOf d)"
    using False by (simp add: wordsOf_joinText)
  with d False have 2: "endsLabel ls (joinText prev d)"
    by (auto simp: endsLabel_def wordsOf_joinText)
  from 1 2 show ?thesis by simp
qed

lemma compatible_run:
  assumes c: "compatibleLabels ls" and evs: "\<forall>e \<in> set evs. labelEvent ls e"
  shows "\<not> adjacentEqual (wordsOf (foldl text_after [] evs)) \<and>
         endsLabel ls (foldl text_after [] evs)"
  using evs
proof (induction evs rule: rev_induct)
  case Nil
  show ?case by (simp add: wordsOf_def endsLabel_def)
next
  case (snoc e evs)
  then have ih: "\<not> adjacentEqual (wordsOf (foldl text_after [] evs))"
    "endsLabel ls (foldl text_after [] evs)" by simp_all
  show ?case
  proof (cases e)
    case (Appended d)
    with snoc.prems show ?thesis by simp
  next
    case (AppendedDistinct d)
    with snoc.prems have d: "d \<in> set ls" by simp
    show ?thesis
    proof (cases "lastWord (foldl text_after [] evs) \<noteq> Some d")
      case True
      from compatible_step [OF c d ih True] True AppendedDistinct show ?thesis by simp
    next
      case False
      with ih AppendedDistinct show ?thesis by simp
    qed
  next
    case Cleared
    then show ?thesis by (simp add: wordsOf_def endsLabel_def)
  qed
qed

lemma compatible_single_words:
  assumes "\<forall>d \<in> set ls. wordsOf d = [d]"
  shows "compatibleLabels ls"
  using assms by (simp add: compatibleLabels_def chains_def list_all_iff)

lemma compatible_gestureLabels: "compatibleLabels gestureLabels"
  by (simp add: compatibleLabels_def chains_def gestureLabels_def wordsOf_labels)

text \<open>The condition cannot be weakened: a list of labels that does not meet it has a run
  that ends with two equal consecutive words.\<close>

lemma incompatible_run:
  assumes "\<not> compatibleLabels ls"
  shows "\<exists>evs. (\<forall>e \<in> set evs. labelEvent ls e) \<and>
               adjacentEqual (wordsOf (foldl text_after [] evs))"
proof (cases "\<exists>d \<in> set ls. adjacentEqual (wordsOf d)")
  case True
  then obtain d where d: "d \<in> set ls" "adjacentEqual (wordsOf d)" by blast
  have "foldl text_after [] [AppendedDistinct d] = d"
    by (simp add: lastWord_empty joinText_def)
  with d have "(\<forall>e \<in> set [AppendedDistinct d]. labelEvent ls e) \<and>
      adjacentEqual (wordsOf (foldl text_after [] [AppendedDistinct d]))" by simp
  then show ?thesis by blast
next
  case False
  with assms obtain d d' where dd: "d \<in> set ls" "d' \<in> set ls" "chains d' d"
    by (auto simp: compatibleLabels_def list_all_iff)
  then have w: "wordsOf d' \<noteq> []" "wordsOf d \<noteq> []" "last (wordsOf d') = hd (wordsOf d)"
    "wordsOf d \<noteq> [d]" by (simp_all add: chains_def)
  have nd: "lastWord d' \<noteq> Some d"
  proof
    assume "lastWord d' = Some d"
    with w have "hd (wordsOf d) = d" by (simp add: lastWord_def)
    from own_word [OF w(2) this] w(4) show False by simp
  qed
  have "foldl text_after [] [AppendedDistinct d', AppendedDistinct d] = joinText d' d"
    using nd by (simp add: lastWord_empty joinText_def)
  moreover have "adjacentEqual (wordsOf (joinText d' d))"
    using w by (simp add: wordsOf_joinText adjacentEqual_append)
  ultimately have "(\<forall>e \<in> set [AppendedDistinct d', AppendedDistinct d]. labelEvent ls e) \<and>
      adjacentEqual (wordsOf (foldl text_after [] [AppendedDistinct d', AppendedDistinct d]))"
    using dd by simp
  then show ?thesis by blast
qed

lemma lastWord_Yes: "lastWord ''Yes'' = Some ''Yes''"
  by (simp add: lastWord_def wordsOf_def)

lemma englishRun_text:
  "detectedText (run_events enProps initialState englishRun) = ''I Love You I Love You Thank You''"
proof -
  have 1: "text_after [] (AppendedDistinct ''Yes'') = ''Yes''"
    by (simp add: lastWord_empty joinText_def)
  have 2: "text_after ''Yes'' (AppendedDistinct ''Yes'') = ''Yes''"
    by (simp add: lastWord_Yes)
  have 3: "text_after [] (AppendedDistinct ''I Love You'') = ''I Love You''"
    by (simp add: lastWord_empty joinText_def)
  have 4: "text_after ''I Love You'' (AppendedDistinct ''I Love You'') = ''I Love You I Love You''"
    by (simp add: joinText_def lastWord_def wordsOf_def)
  have 5: "text_after ''I Love You I Love You'' (AppendedDistinct ''Thank You'') =
      ''I Love You I Love You Thank You''"
    by (simp add: joinText_def lastWord_def wordsOf_def)
  show ?thesis
    unfolding run_events_text englishRun_def
    by (simp only: foldl.simps 1 2 3 4 5 text_after.simps(3) initialState_def
        component_state.simps)
qed

lemma hindiRun_text:
  "detectedText (run_events hiProps initialState hindiRun) = ''haan nahin''"
proof -
  have 1: "text_after [] (AppendedDistinct ''haan'') = ''haan''"
    by (simp add: lastWord_empty joinText_def)
  have 2: "text_after ''haan'' (AppendedDistinct ''haan'') = ''haan''"
    by (simp add: lastWord_def wordsOf_def)
  have 3: "text_after ''haan'' (AppendedDistinct ''nahin'') = ''haan nahin''"
    by (simp add: joinText_def lastWord_def wordsOf_def)
  show ?thesis
    unfolding run_events_text hindiRun_def
    by (simp only: foldl.simps 1 2 3 initialState_def component_state.simps)
qed

text \<open>
  C9 (amended). \<open>processGesture\<close> appends a display label only when it differs from the
  current last word of the text, and otherwise leaves the text unchanged. The accumulated
  text never contains two identical consecutive words provided that no display label holds
  two identical consecutive words itself and that no display label begins with the word
  that ends a display label, unless it is that bare word alone. The proviso is met whenever
  every display label is a single word, translated or not, and it is met by the nine labels
  of the classifier; it cannot be weakened, since any list of labels that does not meet it
  has a run that leaves two identical consecutive words in the text.
\<close>

theorem detectedText_no_repeated_word:
  "(compatibleLabels ls \<and> (\<forall>e \<in> set evs. labelEvent ls e) \<longrightarrow>
      \<not> adjacentEqual (wordsOf (detectedText (run_events p initialState evs)))) \<and>
   (lastWord (detectedText s) \<noteq> Some d \<longrightarrow>
      detectedText (appendDistinctText p d s) = joinText (detectedText s) d) \<and>
   (lastWord (detectedText s) = Some d \<longrightarrow> appendDistinctText p d s = s) \<and>
   ((\<forall>l \<in> set ls. wordsOf l = [l]) \<longrightarrow> compatibleLabels ls) \<and>
   compatibleLabels gestureLabels \<and>
   (\<not> compatibleLabels ls \<longrightarrow>
      (\<exists>evs'. (\<forall>e \<in> set evs'. labelEvent ls e) \<and>
         adjacentEqual (wordsOf (detectedText (run_events p initialState evs')))))"
proof (intro conjI impI)
  assume a: "compatibleLabels ls \<and> (\<forall>e \<in> set evs. labelEvent ls e)"
  have "detectedText (run_events p initialState evs) = foldl text_after [] evs"
    by (simp add: run_events_text initialState_def)
  with compatible_run [of ls evs] a
  show "\<not> adjacentEqual (wordsOf (detectedText (run_events p initialState evs)))"
    by simp
next
  assume "lastWord (detectedText s) \<noteq> Some d"
  then show "detectedText (appendDistinctText p d s) = joinText (detectedText s) d"
    by (simp add: updater_text)
next
  assume "lastWord (detectedText s) = Some d"
  then show "appendDistinctText p d s = s"
    by (simp add: appendDistinctText_def)
next
  assume "\<forall>l \<in> set ls. wordsOf l = [l]"
  then show "compatibleLabels ls" by (rule compatible_single_words)
next
  show "compatibleLabels gestureLabels" by (rule compatible_gestureLabels)
next
  assume "\<not> compatibleLabels ls"
  from incompatible_run [OF this] obtain evs' where
    e: "\<forall>e \<in> set evs'. labelEvent ls e" "adjacentEqual (wordsOf (foldl text_after [] evs'))"
    by blast
  have "detectedText (run_events p initialState evs') = foldl text_after [] evs'"
    by (simp add: run_events_text initialState_def)
  with e show "\<exists>evs'. (\<forall>e \<in> set evs'. labelEvent ls e) \<and>
         adjacentEqual (wordsOf (detectedText (run_events p initialState evs')))"
    by auto
qed

theorem detectedText_no_repeated_word_witness:
  "compatibleLabels gestureLabels \<and> list_all (labelEvent gestureLabels) englishRun \<and>
   detectedText (run_events enProps initialState englishRun) = ''I Love You I Love You Thank You'' \<and>
   \<not> adjacentEqual (wordsOf (detectedText (run_events enProps initialState englishRun))) \<and>
   list_all (\<lambda>l. wordsOf l = [l]) [''haan'', ''nahin''] \<and>
   compatibleLabels [''haan'', ''nahin''] \<and>
   list_all (labelEvent [''haan'', ''nahin'']) hindiRun \<and>
   detectedText (run_events hiProps initialState hindiRun) = ''haan nahin'' \<and>
   \<not> adjacentEqual (wordsOf (detectedText (run_events hiProps initialState hindiRun))) \<and>
   \<not> compatibleLabels [''nahin nahin''] \<and>
   (\<exists>evs'. list_all (labelEvent [''nahin nahin'']) evs' \<and>
      adjacentEqual (wordsOf (detectedText (run_events hiProps initialState evs')))) \<and>
   lastWord (detectedText yesShown) \<noteq> Some ''No'' \<and>
   detectedText (appendDistinctText enProps ''No'' yesShown) = ''Yes No'' \<and>
   lastWord (detectedText yesShown) = Some ''Yes'' \<and>
   appendDistinctText enProps ''Yes'' yesShown = yesShown"
proof -
  have h: "\<forall>e \<in> set englishRun. labelEvent gestureLabels e"
    by (simp add: englishRun_def gestureLabels_def)
  have t: "detectedText yesShown = ''Yes''"
    by (simp add: yesShown_def initialState_def)
  from detectedText_no_repeated_word [of gestureLabels englishRun enProps yesShown "''No''"]
    detectedText_no_repeated_word [of gestureLabels englishRun enProps yesShown "''Yes''"]
    h englishRun_text
  have 1: "compatibleLabels gestureLabels" "list_all (labelEvent gestureLabels) englishRun"
    "detectedText (run_events enProps initialState englishRun) =
       ''I Love You I Love You Thank You''"
    "\<not> adjacentEqual (wordsOf (detectedText (run_events enProps initialState englishRun)))"
    "lastWord (detectedText yesShown) \<noteq> Some ''No''"
    "detectedText (appendDistinctText enProps ''No'' yesShown) = ''Yes No''"
    "lastWord (detectedText yesShown) = Some ''Yes''"
    "appendDistinctText enProps ''Yes'' yesShown = yesShown"
    by (simp_all add: t lastWord_Yes joinText_def list_all_iff)
  have w: "\<forall>l \<in> set [''haan'', ''nahin'']. wordsOf l = [l]"
    by (simp add: wordsOf_def)
  have g: "\<forall>e \<in> set hindiRun. labelEvent [''haan'', ''nahin''] e"
    by (simp add: hindiRun_def)
  from detectedText_no_repeated_word [of "[''haan'', ''nahin'']" hindiRun hiProps yesShown "''No''"]
    w g hindiRun_text
  have 2: "list_all (\<lambda>l. wordsOf l = [l]) [''haan'', ''nahin'']"
    "compatibleLabels [''haan'', ''nahin'']"
    "list_all (labelEvent [''haan'', ''nahin'']) hindiRun"
    "detectedText (run_events hiProps initialState hindiRun) = ''haan nahin''"
    "\<not> adjacentEqual (wordsOf (detectedText (run_events hiProps initialState hindiRun)))"
    by (simp_all add: list_all_iff)
  have n: "\<not> compatibleLabels [''nahin nahin'']"
    by (simp add: compatibleLabels_def wordsOf_def)
  from detectedText_no_repeated_word [of "[''nahin nahin'']" "[]" hiProps yesShown "''No''"] n
  have 3: "\<exists>evs'. list_all (labelEvent [''nahin nahin'']) evs' \<and>
      adjacentEqual (wordsOf (detectedText (run_events hiProps initialState evs')))"
    by (simp add: list_all_iff)
  from 1 2 n 3 show ?thesis by blast
qed

text \<open>
  C9 as stated (never two equal consecutive words, whatever the labels) fails: with the
  language set to Hindi and a translation that says one word twice, the text holds two
  equal consecutive words.
\<close>

theorem detectedText_repeated_word_counterexample:
  "detectedText (run_calls initialState [echoCall, echoCall, echoCall]) = ''nahin nahin'' \<and>
   adjacentEqual (wordsOf (detectedText (run_calls initialState [echoCall, echoCall, echoCall])))"
proof -
  have 1: "apply_call initialState echoCall =
      initialState\<lparr>lastGestureRef := ''No'', gestureCountRef := 1\<rparr>"
    by (simp add: apply_call_def echoCall_def processGesture_unfold countGesture_def
        initialState_def)
  have 2: "apply_call (initialState\<lparr>lastGestureRef := ''No'', gestureCountRef := 1\<rparr>)
      echoCall = initialState\<lparr>lastGestureRef := ''No'', gestureCountRef := 2\<rparr>"
    by (simp add: apply_call_def echoCall_def processGesture_unfold countGesture_def
        initialState_def)
  have 3: "detectedText (apply_call
      (initialState\<lparr>lastGestureRef := ''No'', gestureCountRef := 2\<rparr>) echoCall) = ''nahin nahin''"
    by (simp add: apply_call_def echoCall_def hiProps_def processGesture_unfold countGesture_def
        displayLabel_def translateDisplay_def updater_text lastWord_empty joinText_def
        initialState_def)
  have t: "detectedText (run_calls initialState [echoCall, echoCall, echoCall]) = ''nahin nahin''"
    by (simp only: run_calls_Cons run_calls_Nil 1 2 3)
  have "adjacentEqual (wordsOf ''nahin nahin'')"
    by (simp add: wordsOf_def)
  with t show ?thesis by simp
qed

subsection \<open>Translation of the label\<close>

lemma appendDetectedText_fields [simp]:
  "translateCalls (appendDetectedText p d s) = translateCalls s"
  "isDetecting (appendDetectedText p d s) = isDetecting s"
  by (simp_all add: appendDetectedText_def notify_def Let_def)

lemma processGesture_calls:
  "translateCalls (processGesture p tr g conf s) =
     (if publishes g s \<and> language p \<noteq> ''en''
      then translateCalls s @ [(g, language p)] else translateCalls s)"
  by (simp add: processGesture_unfold publishes_def countGesture_def Let_def)

lemma processGesture_text:
  "detectedText (processGesture p tr g conf s) =
     (if publishes g s
      then text_after (detectedText s) (AppendedDistinct (displayLabel p tr g))
      else detectedText s)"
  by (simp add: processGesture_unfold publishes_def countGesture_def Let_def updater_text)

lemma displayLabel_fallback:
  "language p = ''en'' \<or> tr = Threw \<or> tr = Returned None \<or> tr = Returned (Some []) \<Longrightarrow>
   displayLabel p tr g = g"
  by (auto simp: displayLabel_def translateDisplay_def)

lemma processLandmarks_detected:
  assumes "landmarks \<noteq> []" "\<not> funcError r" "detectData r = Some d" "detected d"
    "detectedGesture d \<noteq> []"
  shows "translateCalls (processLandmarks p (Returned r) tr landmarks s) =
      (if language p \<noteq> ''en'' then translateCalls s @ [(detectedGesture d, language p)]
       else translateCalls s)"
    and "language p = ''en'' \<or> tr = Returned None \<or> tr = Returned (Some []) \<Longrightarrow>
      detectedText (processLandmarks p (Returned r) tr landmarks s) =
        joinText (detectedText s) (detectedGesture d)"
  using assms
  by (auto simp: processLandmarks_def processLandmarksTry_def Let_def updater_text
      translateDisplay_def split: invoked.splits)

lemma processLandmarks_nothing:
  assumes "landmarks = [] \<or> det = Threw \<or>
    (\<exists>r. det = Returned r \<and>
       (funcError r \<or> detectData r = None \<or>
        (\<exists>d. detectData r = Some d \<and> (\<not> detected d \<or> detectedGesture d = []))))"
  shows "translateCalls (processLandmarks p det tr landmarks s) = translateCalls s"
    and "detectedText (processLandmarks p det tr landmarks s) = detectedText s"
  using assms
  by (auto simp: processLandmarks_def processLandmarksTry_def)

lemma yesShown_reached:
  "run_calls initialState [yesCall, yesCall, yesCall, yesCall, yesCall] = yesShown"
proof -
  have 1: "apply_call initialState yesCall =
      initialState\<lparr>lastGestureRef := ''Yes'', gestureCountRef := 1\<rparr>"
    by (simp add: apply_call_def yesCall_def processGesture_unfold countGesture_def
        initialState_def)
  have 2: "apply_call (initialState\<lparr>lastGestureRef := ''Yes'', gestureCountRef := 1\<rparr>)
      yesCall = initialState\<lparr>lastGestureRef := ''Yes'', gestureCountRef := 2\<rparr>"
    by (simp add: apply_call_def yesCall_def processGesture_unfold countGesture_def
        initialState_def)
  have 3: "apply_call (initialState\<lparr>lastGestureRef := ''Yes'', gestureCountRef := 2\<rparr>)
      yesCall = yesShown\<lparr>gestureCountRef := 0\<rparr>"
    by (simp add: apply_call_def yesCall_def enProps_def processGesture_unfold countGesture_def
        displayLabel_def appendDistinctText_def notify_def lastWord_empty joinText_def
        initialState_def yesShown_def Let_def)
  have 4: "apply_call (yesShown\<lparr>gestureCountRef := 0\<rparr>) yesCall =
      yesShown\<lparr>gestureCountRef := 1\<rparr>"
    by (simp add: apply_call_def yesCall_def processGesture_unfold countGesture_def
        initialState_def yesShown_def)
  have 5: "apply_call (yesShown\<lparr>gestureCountRef := 1\<rparr>) yesCall = yesShown"
    by (simp add: apply_call_def yesCall_def processGesture_unfold countGesture_def
        initialState_def yesShown_def)
  show ?thesis by (simp only: run_calls_Cons run_calls_Nil 1 2 3 4 5)
qed

text \<open>
  What the two translate blocks do when nothing is thrown in the first listing: the remote
  function is called exactly when a gesture is published (the call of \<open>processGesture\<close>
  gets past its early \<open>return\<close>; in \<open>processLandmarks\<close>, the remote detection reported a
  gesture) and the captured language is not "en". When it is not called, or returns no
  translated text or an empty one (in \<open>processGesture\<close> also when the call throws), the
  display label is the English label.
\<close>

lemma translation_fallback:
  "translateCalls (processGesture p tr g conf s) =
     (if publishes g s \<and> language p \<noteq> ''en''
      then translateCalls s @ [(g, language p)] else translateCalls s) \<and>
   (publishes g s \<and>
    (language p = ''en'' \<or> tr = Threw \<or> tr = Returned None \<or> tr = Returned (Some [])) \<longrightarrow>
      detectedText (processGesture p tr g conf s) =
        (if lastWord (detectedText s) = Some g then detectedText s
         else joinText (detectedText s) g)) \<and>
   (landmarks \<noteq> [] \<and> \<not> funcError r \<and> detectData r = Some d \<and> detected d \<and>
    detectedGesture d \<noteq> [] \<longrightarrow>
      translateCalls (processLandmarks p (Returned r) tr landmarks s) =
        (if language p \<noteq> ''en'' then translateCalls s @ [(detectedGesture d, language p)]
         else translateCalls s) \<and>
      (language p = ''en'' \<or> tr = Returned None \<or> tr = Returned (Some []) \<longrightarrow>
         detectedText (processLandmarks p (Returned r) tr landmarks s) =
           joinText (detectedText s) (detectedGesture d))) \<and>
   (landmarks = [] \<or> det = Threw \<or>
    (\<exists>r. det = Returned r \<and>
       (funcError r \<or> detectData r = None \<or>
        (\<exists>d. detectData r = Some d \<and> (\<not> detected d \<or> detectedGesture d = [])))) \<longrightarrow>
      translateCalls (processLandmarks p det tr landmarks s) = translateCalls s \<and>
      detectedText (processLandmarks p det tr landmarks s) = detectedText s)"
proof (intro conjI impI)
  show "translateCalls (processGesture p tr g conf s) =
     (if publishes g s \<and> language p \<noteq> ''en''
      then translateCalls s @ [(g, language p)] else translateCalls s)"
    by (rule processGesture_calls)
next
  assume a: "publishes g s \<and>
    (language p = ''en'' \<or> tr = Threw \<or> tr = Returned None \<or> tr = Returned (Some []))"
  then have "displayLabel p tr g = g" by (intro displayLabel_fallback) simp
  with a show "detectedText (processGesture p tr g conf s) =
        (if lastWord (detectedText s) = Some g then detectedText s
         else joinText (detectedText s) g)"
    by (simp add: processGesture_text)
next
  assume a: "landmarks \<noteq> [] \<and> \<not> funcError r \<and> detectData r = Some d \<and> detected d \<and>
    detectedGesture d \<noteq> []"
  then show "translateCalls (processLandmarks p (Returned r) tr landmarks s) =
        (if language p \<noteq> ''en'' then translateCalls s @ [(detectedGesture d, language p)]
         else translateCalls s)"
    by (intro processLandmarks_detected(1)) simp_all
next
  assume a: "landmarks \<noteq> [] \<and> \<not> funcError r \<and> detectData r = Some d \<and> detected d \<and>
    detectedGesture d \<noteq> []"
    and b: "language p = ''en'' \<or> tr = Returned None \<or> tr = Returned (Some [])"
  from a have "landmarks \<noteq> []" "\<not> funcError r" "detectData r = Some d" "detected d"
    "detectedGesture d \<noteq> []" by simp_all
  from processLandmarks_detected(2) [OF this b]
  show "detectedText (processLandmarks p (Returned r) tr landmarks s) =
           joinText (detectedText s) (detectedGesture d)" .
next
  assume a: "landmarks = [] \<or> det = Threw \<or>
    (\<exists>r. det = Returned r \<and>
       (funcError r \<or> detectData r = None \<or>
        (\<exists>d. detectData r = Some d \<and> (\<not> detected d \<or> detectedGesture d = []))))"
  from processLandmarks_nothing(1) [OF a]
  show "translateCalls (processLandmarks p det tr landmarks s) = translateCalls s" .
  from processLandmarks_nothing(2) [OF a]
  show "detectedText (processLandmarks p det tr landmarks s) = detectedText s" .
qed

text \<open>In the first listing an exception of the translation call leaves the \<open>try\<close> block
  before \<open>setDetectedText\<close> is reached: the text and the callback log stay as they were.\<close>

lemma processLandmarks_translation_threw:
  assumes "landmarks \<noteq> []" "\<not> funcError r" "detectData r = Some d" "detected d"
    "detectedGesture d \<noteq> []" "language p \<noteq> ''en''"
  shows "detectedText (processLandmarks p (Returned r) Threw landmarks s) = detectedText s"
    and "onDetectionCalls (processLandmarks p (Returned r) Threw landmarks s) =
           onDetectionCalls s"
    and "translateCalls (processLandmarks p (Returned r) Threw landmarks s) =
           translateCalls s @ [(detectedGesture d, language p)]"
  using assms by (simp_all add: processLandmarks_def processLandmarksTry_def)


subsection \<open>Failures while starting\<close>



lemma final_try_finally:
  "final (try_finally body cleanup) = (if stuck body then final body else cleanup (final body))"
  by (cases body) (simp_all add: try_finally_def)




lemma initializeMediaPipe_cases:
  "initializeMediaPipe env s =
     (case scriptLoad env of
        Never \<Rightarrow> Stuck s
      | Rejected err \<Rightarrow>
          Raised (ErrorObject ''Error'' ''Failed to load hand tracking. Please try again.'') s
      | Resolved \<Rightarrow>
          if handsAvailable env \<and> handsSetup env = None then Done (s\<lparr>handsRef := True\<rparr>)
          else Raised (ErrorObject ''Error'' ''Failed to load hand tracking. Please try again.'') s)"
  by (simp add: initializeMediaPipe_def try_catch_def awaiting_def
      split: awaited.splits option.splits)













text \<open>
  What the first listing does with its frame loop: started from an inactive component it
  never becomes active, since the canvas it asks for is not rendered; started from an
  active one, a rejected first \<open>send\<close> is left unhandled.
\<close>

lemma detectFrame_v1_active: "isActive (detectFrame_v1 env s) = isActive s"
  by (simp add: detectFrame_v1_def split: awaited.splits)

lemma startDetection_v1_inactive:
  assumes "\<not> isActive s"
  shows "\<not> isActive (final (startDetection_v1 env s))"
proof -
  let ?s0 = "s\<lparr>error := None, isLoading := True\<rparr>"
  have i: "\<not> isActive (final (initializeMediaPipe env ?s0))"
    using assms by (simp add: initializeMediaPipe_cases split: awaited.splits)
  have t: "\<not> isActive (final (startDetectionTry_v1 env ?s0))"
    using assms
    by (simp add: startDetectionTry_v1_def initializeMediaPipe_cases and_then_def awaiting_def
        split: awaited.splits)
  have c: "isActive (startDetectionCatch_v1 err s') = isActive s'" for err s'
    by (cases err) (simp_all add: startDetectionCatch_v1_def)
  show ?thesis
    using t
    by (cases "startDetectionTry_v1 env ?s0")
      (simp_all add: startDetection_v1_def try_catch_def try_finally_def c)
qed

lemma startDetection_v1_send_rejected:
  assumes "isActive s"
  shows "unhandledRejections (final (startDetection_v1 (workingEnv\<lparr>firstSend := Rejected err\<rparr>) s)) =
           unhandledRejections s @ [err]"
  using assms
  by (simp add: startDetection_v1_def startDetectionTry_v1_def initializeMediaPipe_cases
      and_then_def awaiting_def try_catch_def try_finally_def detectFrame_v1_def workingEnv_def)





end
